theory Spec2Isabelle
  imports Complex_Main
begin

section \<open>Python values\<close>

text \<open>
  The agent (\<^verbatim>\<open>agent.py\<close>) and the search client (\<^verbatim>\<open>scraper.py\<close>) work on
  values decoded from JSON: \<^verbatim>\<open>None\<close>, booleans, integers, floats, strings, lists and
  dictionaries with string keys. A dictionary is an association list in insertion order
  and is looked up with \<open>map_of\<close>. A float is kept as the rational it denotes, or as one
  of the three non-finite values; the code only tests floats for truth and passes them on.
  A \<open>char\<close> stands for a code point below 256.
\<close>

datatype pyfloat = Finite rat | PosInf | NegInf | NaN

datatype pyval =
    PNone
  | PBool bool
  | PInt int
  | PFloat pyfloat
  | PStr string
  | PList "pyval list"
  | PDict "(string \<times> pyval) list"

text \<open>Truth value testing, as \<^verbatim>\<open>if x\<close>, \<^verbatim>\<open>x or y\<close> and \<^verbatim>\<open>x and y\<close> do it.\<close>

fun truthy :: "pyval \<Rightarrow> bool" where
  "truthy PNone = False"
| "truthy (PBool b) = b"
| "truthy (PInt i) = (i \<noteq> 0)"
| "truthy (PFloat f) = (f \<noteq> Finite 0)"
| "truthy (PStr s) = (s \<noteq> [])"
| "truthy (PList xs) = (xs \<noteq> [])"
| "truthy (PDict d) = (d \<noteq> [])"

definition py_or :: "pyval \<Rightarrow> pyval \<Rightarrow> pyval" where
  "py_or x y = (if truthy x then x else y)"

text \<open>The exceptions that the modelled code raises, catches or lets through.\<close>

datatype exn =
    LLMError string "int option"
  | ScraperError string "int option"
  | JSONDecodeError
  | IndexError
  | AttributeError
  | KeyError
  | TypeError

definition and_then :: "exn + 'a \<Rightarrow> ('a \<Rightarrow> exn + 'b) \<Rightarrow> exn + 'b" where
  "and_then r f = (case r of Inl e \<Rightarrow> Inl e | Inr v \<Rightarrow> f v)"

text \<open>\<^verbatim>\<open>x.get(key, default)\<close>: only a dictionary has the method.\<close>

fun py_get :: "pyval \<Rightarrow> string \<Rightarrow> pyval \<Rightarrow> exn + pyval" where
  "py_get (PDict d) k dflt = Inr (case map_of d k of None \<Rightarrow> dflt | Some v \<Rightarrow> v)"
| "py_get _ k dflt = Inl AttributeError"

text \<open>\<^verbatim>\<open>x[key]\<close> with a string key.\<close>

fun py_getitem :: "pyval \<Rightarrow> string \<Rightarrow> exn + pyval" where
  "py_getitem (PDict d) k = (case map_of d k of None \<Rightarrow> Inl KeyError | Some v \<Rightarrow> Inr v)"
| "py_getitem _ k = Inl TypeError"

text \<open>\<^verbatim>\<open>for item in x\<close>: the items a loop visits, or the TypeError of a value that
  cannot be iterated. A string yields its characters, a dictionary its keys.\<close>

fun py_iter :: "pyval \<Rightarrow> exn + pyval list" where
  "py_iter (PList xs) = Inr xs"
| "py_iter (PStr s) = Inr (map (\<lambda>c. PStr [c]) s)"
| "py_iter (PDict d) = Inr (map (\<lambda>kv. PStr (fst kv)) d)"
| "py_iter _ = Inl TypeError"

section \<open>Python string methods\<close>

definition py_isspace :: "char \<Rightarrow> bool" where
  "py_isspace c = (c \<in> set [CHR 0x09, CHR 0x0A, CHR 0x0B, CHR 0x0C, CHR 0x0D,
                              CHR 0x1C, CHR 0x1D, CHR 0x1E, CHR 0x1F, CHR 0x20,
                              CHR 0x85, CHR 0xA0])"

definition strip :: "string \<Rightarrow> string" where
  "strip s = rev (dropWhile py_isspace (rev (dropWhile py_isspace s)))"

definition startswith :: "string \<Rightarrow> string \<Rightarrow> bool" where
  "startswith s p = (take (length p) s = p)"

text \<open>The text before and after the first occurrence of \<open>sep\<close>, if there is one.\<close>

fun split_once :: "string \<Rightarrow> string \<Rightarrow> (string \<times> string) option" where
  "split_once sep [] = (if sep = [] then Some ([], []) else None)"
| "split_once sep (c # cs) =
     (if startswith (c # cs) sep then Some ([], drop (length sep) (c # cs))
      else map_option (\<lambda>ab. (c # fst ab, snd ab)) (split_once sep cs))"

text \<open>\<^verbatim>\<open>s.split(sep, 1)\<close> and \<^verbatim>\<open>s.rsplit(sep, 1)\<close>; the latter cuts at the last
  occurrence, which is the first one of the reversed separator in the reversed string.\<close>

definition py_split1 :: "string \<Rightarrow> string \<Rightarrow> string list" where
  "py_split1 s sep = (case split_once sep s of None \<Rightarrow> [s] | Some (a, b) \<Rightarrow> [a, b])"

definition py_rsplit1 :: "string \<Rightarrow> string \<Rightarrow> string list" where
  "py_rsplit1 s sep =
     (case split_once (rev sep) (rev s) of None \<Rightarrow> [s] | Some (a, b) \<Rightarrow> [rev b, rev a])"

text \<open>\<^verbatim>\<open>xs[i]\<close> for an index that is not negative.\<close>

definition list_item :: "'a list \<Rightarrow> nat \<Rightarrow> exn + 'a" where
  "list_item xs i = (if i < length xs then Inr (xs ! i) else Inl IndexError)"

text \<open>The decimal digits of a natural number, as an f-string prints a loop index.\<close>

definition digit :: "nat \<Rightarrow> char" where
  "digit d = ''0123456789'' ! d"

fun dec :: "nat \<Rightarrow> string" where
  "dec n = (if n < 10 then [digit n] else dec (n div 10) @ [digit (n mod 10)])"

declare dec.simps [simp del]

section \<open>What the code takes from Python's library\<close>

text \<open>
  \<open>json_loads\<close> stands for \<^verbatim>\<open>json.loads\<close> on a string: \<open>None\<close> is its
  \<^verbatim>\<open>JSONDecodeError\<close>. \<open>str_of\<close> stands for \<^verbatim>\<open>str()\<close> on a value that is not a
  string. Both are parameters: every theorem below holds for any decoder and any printer.
\<close>

record pylib =
  json_loads :: "string \<Rightarrow> pyval option"
  str_of :: "pyval \<Rightarrow> string"

definition loads :: "pylib \<Rightarrow> string \<Rightarrow> exn + pyval" where
  "loads L s = (case json_loads L s of None \<Rightarrow> Inl JSONDecodeError | Some v \<Rightarrow> Inr v)"

text \<open>A value inside an f-string: a string is inserted as it is.\<close>

fun fmt :: "pylib \<Rightarrow> pyval \<Rightarrow> string" where
  "fmt L (PStr s) = s"
| "fmt L v = str_of L v"

section \<open>The prompt templates of agent.py\<close>

text \<open>
  Each template is cut at its replacement fields; \<^verbatim>\<open>format\<close> puts the arguments between
  the parts and turns the doubled braces of the template into single ones.
\<close>

definition DECISION_PROMPT_part0 :: string where
  \<open>DECISION_PROMPT_part0 =
     ''You are a helpful assistant that decides whether a question requires current information from the web.\<newline>'' @
     ''\<newline>'' @
     ''Analyze the following question and determine if it needs web search to provide an accurate, up-to-date answer.\<newline>'' @
     ''\<newline>'' @
     ''Questions that typically NEED web search:\<newline>'' @
     ''- Current events, news, or recent developments\<newline>'' @
     ''- Real-time data (prices, weather, stock prices)\<newline>'' @
     ''- Information that changes frequently\<newline>'' @
     ''- Questions about specific recent dates or events\<newline>'' @
     ''- Questions about current versions of software, products, etc.\<newline>'' @
     ''\<newline>'' @
     ''Questions that typically DON'T need web search:\<newline>'' @
     ''- General knowledge, concepts, or explanations\<newline>'' @
     ''- Historical facts\<newline>'' @
     ''- How-to guides for established processes\<newline>'' @
     ''- Mathematical or logical problems\<newline>'' @
     ''- Definitions or explanations of well-known topics\<newline>'' @
     ''\<newline>'' @
     ''Question: ''\<close>

definition DECISION_PROMPT_part1 :: string where
  \<open>DECISION_PROMPT_part1 =
     ''\<newline>'' @
     ''\<newline>'' @
     ''Respond with ONLY a JSON object (no markdown, no explanation):\<newline>'' @
     ''{"needs_search": true/false, "reason": "brief explanation"}''\<close>

definition KEYWORD_PROMPT_part0 :: string where
  \<open>KEYWORD_PROMPT_part0 =
     ''Extract the best search keywords from this question to find relevant information on Google.\<newline>'' @
     ''\<newline>'' @
     ''Question: ''\<close>

definition KEYWORD_PROMPT_part1 :: string where
  \<open>KEYWORD_PROMPT_part1 =
     ''\<newline>'' @
     ''\<newline>'' @
     ''Respond with ONLY a JSON object (no markdown, no explanation):\<newline>'' @
     ''{"keywords": "optimized search query"}''\<close>

definition ANSWER_WITH_SEARCH_PROMPT_part0 :: string where
  \<open>ANSWER_WITH_SEARCH_PROMPT_part0 =
     ''You are a helpful research assistant. Answer the user's question using the search results provided.\<newline>'' @
     ''\<newline>'' @
     ''Question: ''\<close>

definition ANSWER_WITH_SEARCH_PROMPT_part1 :: string where
  \<open>ANSWER_WITH_SEARCH_PROMPT_part1 =
     ''\<newline>'' @
     ''\<newline>'' @
     ''Search Results:\<newline>''\<close>

definition ANSWER_WITH_SEARCH_PROMPT_part2 :: string where
  \<open>ANSWER_WITH_SEARCH_PROMPT_part2 =
     ''\<newline>'' @
     ''\<newline>'' @
     ''Instructions:\<newline>'' @
     ''- Provide a comprehensive answer based on the search results\<newline>'' @
     ''- If the search results don't contain relevant information, say so\<newline>'' @
     ''- Cite sources when possible by mentioning the source title\<newline>'' @
     ''- Be concise but thorough''\<close>

definition ANSWER_DIRECT_PROMPT_part0 :: string where
  \<open>ANSWER_DIRECT_PROMPT_part0 =
     ''You are a helpful assistant. Answer the following question based on your knowledge.\<newline>'' @
     ''\<newline>'' @
     ''Question: ''\<close>

definition ANSWER_DIRECT_PROMPT_part1 :: string where
  \<open>ANSWER_DIRECT_PROMPT_part1 =
     ''\<newline>'' @
     ''\<newline>'' @
     ''Provide a clear, accurate, and helpful response.''\<close>

definition DECISION_PROMPT_format :: "string \<Rightarrow> string" where
  "DECISION_PROMPT_format q = DECISION_PROMPT_part0 @ q @ DECISION_PROMPT_part1"

definition KEYWORD_PROMPT_format :: "string \<Rightarrow> string" where
  "KEYWORD_PROMPT_format q = KEYWORD_PROMPT_part0 @ q @ KEYWORD_PROMPT_part1"

definition ANSWER_WITH_SEARCH_PROMPT_format :: "string \<Rightarrow> string \<Rightarrow> string" where
  "ANSWER_WITH_SEARCH_PROMPT_format q rs =
     ANSWER_WITH_SEARCH_PROMPT_part0 @ q @ ANSWER_WITH_SEARCH_PROMPT_part1 @ rs @
     ANSWER_WITH_SEARCH_PROMPT_part2"

definition ANSWER_DIRECT_PROMPT_format :: "string \<Rightarrow> string" where
  "ANSWER_DIRECT_PROMPT_format q = ANSWER_DIRECT_PROMPT_part0 @ q @ ANSWER_DIRECT_PROMPT_part1"

section \<open>The two ports\<close>

text \<open>
  \<^verbatim>\<open>LLMClient.prompt\<close> returns the model's text or raises \<^verbatim>\<open>LLMError(message,
  status_code)\<close>; \<^verbatim>\<open>ScraperClient.search_as_dict\<close> returns a list of dictionaries or
  raises \<^verbatim>\<open>ScraperError(message, status_code)\<close>, as their docstrings say. Both are
  network calls, so a reply may depend on everything that was sent before: a port is a
  function of the calls made so far, and every stage returns the extended list of calls.
\<close>

datatype temperature = Temp_0_1 | Temp_0_7

datatype event = LLMCall string temperature | SearchCall pyval nat

datatype llm_reply = LLMFails string "int option" | LLMReturns string

datatype search_reply = SearchFails string "int option" | SearchReturns "pyval list"

record ports =
  llm_prompt :: "event list \<Rightarrow> string \<Rightarrow> temperature \<Rightarrow> llm_reply"
  search_as_dict :: "event list \<Rightarrow> pyval \<Rightarrow> nat \<Rightarrow> search_reply"

definition prompt_llm :: "ports \<Rightarrow> event list \<Rightarrow> string \<Rightarrow> temperature \<Rightarrow> exn + string" where
  "prompt_llm P hist prompt t =
     (case llm_prompt P hist prompt t of
        LLMFails m sc \<Rightarrow> Inl (LLMError m sc)
      | LLMReturns response \<Rightarrow> Inr response)"

section \<open>ResearchAgent\<close>

subsection \<open>Decoding a reply (agent.py, lines 85-89 and 110-114)\<close>

text \<open>
  \<^verbatim>\<open>response.split("\n", 1)[1].rsplit("```", 1)[0]\<close>: the index \<open>1\<close> raises
  IndexError when the reply has no line break.
\<close>

definition strip_fence :: "string \<Rightarrow> exn + string" where
  "strip_fence response =
     (if startswith response ''```'' then
        and_then (list_item (py_split1 response ''\<newline>'') 1)
          (\<lambda>rest. list_item (py_rsplit1 rest ''```'') 0)
      else Inr response)"

definition parse_json_response :: "pylib \<Rightarrow> string \<Rightarrow> exn + pyval" where
  "parse_json_response L response = and_then (strip_fence (strip response)) (loads L)"

text \<open>\<^verbatim>\<open>except (json.JSONDecodeError, LLMError)\<close>\<close>

fun json_or_llm_error :: "exn \<Rightarrow> bool" where
  "json_or_llm_error JSONDecodeError = True"
| "json_or_llm_error (LLMError m sc) = True"
| "json_or_llm_error _ = False"

subsection \<open>The decision stage\<close>

definition decision_fallback :: "pyval \<times> pyval" where
  "decision_fallback = (PBool False, PStr ''Failed to determine, using direct answer'')"

definition needs_web_search_try :: "pylib \<Rightarrow> ports \<Rightarrow> string \<Rightarrow> event list \<Rightarrow> exn + pyval \<times> pyval" where
  "needs_web_search_try L P q hist =
     and_then (prompt_llm P hist (DECISION_PROMPT_format q) Temp_0_1) (\<lambda>response.
     and_then (parse_json_response L response) (\<lambda>data.
     and_then (py_get data ''needs_search'' (PBool False)) (\<lambda>needs_search.
     and_then (py_get data ''reason'' (PStr [])) (\<lambda>reason.
     Inr (needs_search, reason)))))"

definition needs_web_search ::
  "pylib \<Rightarrow> ports \<Rightarrow> string \<Rightarrow> event list \<Rightarrow> (exn + pyval \<times> pyval) \<times> event list" where
  "needs_web_search L P q hist =
     ((case needs_web_search_try L P q hist of
         Inl e \<Rightarrow> (if json_or_llm_error e then Inr decision_fallback else Inl e)
       | Inr d \<Rightarrow> Inr d),
      hist @ [LLMCall (DECISION_PROMPT_format q) Temp_0_1])"

subsection \<open>The keyword stage\<close>

definition extract_keywords_try :: "pylib \<Rightarrow> ports \<Rightarrow> string \<Rightarrow> event list \<Rightarrow> exn + pyval" where
  "extract_keywords_try L P q hist =
     and_then (prompt_llm P hist (KEYWORD_PROMPT_format q) Temp_0_1) (\<lambda>response.
     and_then (parse_json_response L response) (\<lambda>data.
     py_get data ''keywords'' (PStr q)))"

definition extract_keywords ::
  "pylib \<Rightarrow> ports \<Rightarrow> string \<Rightarrow> event list \<Rightarrow> (exn + pyval) \<times> event list" where
  "extract_keywords L P q hist =
     ((case extract_keywords_try L P q hist of
         Inl e \<Rightarrow> (if json_or_llm_error e then Inr (PStr q) else Inl e)
       | Inr keywords \<Rightarrow> Inr keywords),
      hist @ [LLMCall (KEYWORD_PROMPT_format q) Temp_0_1])"

subsection \<open>The search stage\<close>

definition search_web :: "ports \<Rightarrow> pyval \<Rightarrow> nat \<Rightarrow> event list \<Rightarrow> pyval list \<times> event list" where
  "search_web P keywords num_results hist =
     ((case search_as_dict P hist keywords num_results of
         SearchFails m sc \<Rightarrow> []
       | SearchReturns results \<Rightarrow> results),
      hist @ [SearchCall keywords num_results])"

subsection \<open>The two synthesis stages\<close>

text \<open>One round of the loop of \<^verbatim>\<open>_answer_with_results\<close>: the three lines it appends.\<close>

definition format_result :: "pylib \<Rightarrow> nat \<Rightarrow> pyval \<Rightarrow> exn + string" where
  "format_result L i result =
     and_then (py_getitem result ''title'') (\<lambda>title.
     and_then (py_getitem result ''url'') (\<lambda>url.
     and_then (py_getitem result ''description'') (\<lambda>description.
     Inr (''\<newline>'' @ dec i @ ''. '' @ fmt L title @ ''\<newline>'' @
          ''   URL: '' @ fmt L url @ ''\<newline>'' @
          ''   '' @ fmt L description @ ''\<newline>''))))"

fun format_results :: "pylib \<Rightarrow> nat \<Rightarrow> pyval list \<Rightarrow> string \<Rightarrow> exn + string" where
  "format_results L i [] formatted = Inr formatted"
| "format_results L i (result # rest) formatted =
     (case format_result L i result of
        Inl e \<Rightarrow> Inl e
      | Inr block \<Rightarrow> format_results L (Suc i) rest (formatted @ block))"

definition answer_with_results ::
  "pylib \<Rightarrow> ports \<Rightarrow> string \<Rightarrow> pyval list \<Rightarrow> event list \<Rightarrow> (exn + string) \<times> event list" where
  "answer_with_results L P q search_results hist =
     (case format_results L 1 search_results [] of
        Inl e \<Rightarrow> (Inl e, hist)
      | Inr formatted_results \<Rightarrow>
          (prompt_llm P hist (ANSWER_WITH_SEARCH_PROMPT_format q formatted_results) Temp_0_7,
           hist @ [LLMCall (ANSWER_WITH_SEARCH_PROMPT_format q formatted_results) Temp_0_7]))"

definition answer_direct :: "ports \<Rightarrow> string \<Rightarrow> event list \<Rightarrow> (exn + string) \<times> event list" where
  "answer_direct P q hist =
     (prompt_llm P hist (ANSWER_DIRECT_PROMPT_format q) Temp_0_7,
      hist @ [LLMCall (ANSWER_DIRECT_PROMPT_format q) Temp_0_7])"

subsection \<open>answer\<close>

record AnswerResult =
  question :: string
  answer_text :: string
  used_search :: bool
  search_results :: "pyval list"
  reason :: pyval

text \<open>
  \<^verbatim>\<open>except LLMError as e\<close> at the end of \<^verbatim>\<open>answer\<close>: the dictionary built so far gets
  the error text as its answer and is returned; any other exception leaves the method.
\<close>

fun on_exception :: "AnswerResult \<Rightarrow> exn \<Rightarrow> exn + AnswerResult" where
  "on_exception result (LLMError message sc) =
     Inr (result\<lparr>answer_text := ''Sorry, I encountered an error: '' @ message\<rparr>)"
| "on_exception result e = Inl e"

definition set_answer ::
  "AnswerResult \<Rightarrow> (exn + string) \<times> event list \<Rightarrow> (exn + AnswerResult) \<times> event list" where
  "set_answer result r =
     (case fst r of
        Inl e \<Rightarrow> (on_exception result e, snd r)
      | Inr a \<Rightarrow> (Inr (result\<lparr>answer_text := a\<rparr>), snd r))"

definition answer ::
  "pylib \<Rightarrow> ports \<Rightarrow> string \<Rightarrow> bool \<Rightarrow> event list \<Rightarrow> (exn + AnswerResult) \<times> event list" where
  "answer L P q use_web_search hist =
     (let result = \<lparr>question = q, answer_text = [], used_search = False,
                     search_results = [], reason = PStr []\<rparr> in
      if \<not> use_web_search then
        set_answer (result\<lparr>reason := PStr ''Web search disabled''\<rparr>) (answer_direct P q hist)
      else
        case needs_web_search L P q hist of
          (Inl e, hist1) \<Rightarrow> (on_exception result e, hist1)
        | (Inr (needs_search, rsn), hist1) \<Rightarrow>
            let result = result\<lparr>reason := rsn\<rparr> in
            if truthy needs_search then
              case extract_keywords L P q hist1 of
                (Inl e, hist2) \<Rightarrow> (on_exception result e, hist2)
              | (Inr keywords, hist2) \<Rightarrow>
                  (case search_web P keywords 5 hist2 of
                     (results, hist3) \<Rightarrow>
                       let result = result\<lparr>search_results := results, used_search := True\<rparr> in
                       if results \<noteq> [] then
                         set_answer result (answer_with_results L P q results hist3)
                       else
                         set_answer result (answer_direct P q hist3))
            else
              set_answer result (answer_direct P q hist1))"

section \<open>ScraperClient: parsing the provider's payload\<close>

record SearchResult =
  title :: pyval
  url :: pyval
  description :: pyval

definition to_dict :: "SearchResult \<Rightarrow> pyval" where
  "to_dict r = PDict [(''title'', title r), (''url'', url r), (''description'', description r)]"

text \<open>
  Lines 53-63 of scraper.py: where the list of organic results is. \<open>None\<close> is the early
  \<^verbatim>\<open>return []\<close> for a body that is a string but not JSON. In \<^verbatim>\<open>a or b\<close> the right
  operand is evaluated only when the left one is false.
\<close>

definition find_organic :: "pylib \<Rightarrow> pyval \<Rightarrow> exn + pyval option" where
  "find_organic L data =
     and_then (py_get data ''body'' data) (\<lambda>body.
       case (case body of PStr s \<Rightarrow> json_loads L s | _ \<Rightarrow> Some body) of
         None \<Rightarrow> Inr None
       | Some body \<Rightarrow>
           and_then (py_get body ''organic'' PNone) (\<lambda>organic.
           and_then (if truthy organic then Inr organic
                     else py_get body ''organic_results'' PNone) (\<lambda>organic.
           Inr (Some (py_or organic (PList []))))))"

text \<open>One round of the loop of lines 66-72: the record to append, if the item passes
  \<^verbatim>\<open>if title and url\<close>.\<close>

definition parse_item :: "pyval \<Rightarrow> exn + SearchResult option" where
  "parse_item item =
     and_then (py_get item ''title'' (PStr [])) (\<lambda>t.
     and_then (py_get item ''link'' PNone) (\<lambda>link.
     and_then (if truthy link then Inr link else py_get item ''url'' (PStr [])) (\<lambda>u.
     and_then (py_get item ''description'' PNone) (\<lambda>d.
     and_then (if truthy d then Inr d else py_get item ''snippet'' (PStr [])) (\<lambda>d.
     Inr (if truthy t \<and> truthy u
          then Some \<lparr>title = t, url = u, description = d\<rparr> else None))))))"

fun parse_items :: "pyval list \<Rightarrow> SearchResult list \<Rightarrow> exn + SearchResult list" where
  "parse_items [] results = Inr results"
| "parse_items (item # rest) results =
     (case parse_item item of
        Inl e \<Rightarrow> Inl e
      | Inr None \<Rightarrow> parse_items rest results
      | Inr (Some r) \<Rightarrow> parse_items rest (results @ [r]))"

definition parse_search_results :: "pylib \<Rightarrow> pyval \<Rightarrow> exn + SearchResult list" where
  "parse_search_results L data =
     and_then (find_organic L data) (\<lambda>found.
       case found of
         None \<Rightarrow> Inr []
       | Some organic \<Rightarrow> and_then (py_iter organic) (\<lambda>items. parse_items items []))"

text \<open>
  \<^verbatim>\<open>search_as_dict\<close> on a payload that arrived with status 200: the parsed results,
  each turned into a dictionary (lines 125-126 and 135-136).
\<close>

definition results_as_dict :: "pylib \<Rightarrow> pyval \<Rightarrow> exn + pyval list" where
  "results_as_dict L data =
     and_then (parse_search_results L data) (\<lambda>results. Inr (map to_dict results))"

subsection \<open>What the specification says a record is\<close>

text \<open>
  The fields of a provider record, read as the specification describes them: the URL is
  the \<^verbatim>\<open>link\<close> field or else the \<^verbatim>\<open>url\<close> field, the description is the
  \<^verbatim>\<open>description\<close> field or else the \<^verbatim>\<open>snippet\<close> field, a missing field is the
  empty string. A record is valid when its title and its URL are not empty. These
  definitions are only used to state what the parser computes.
\<close>

definition field :: "(string \<times> pyval) list \<Rightarrow> string \<Rightarrow> pyval \<Rightarrow> pyval" where
  "field d k dflt = (case map_of d k of None \<Rightarrow> dflt | Some v \<Rightarrow> v)"

definition record_of :: "(string \<times> pyval) list \<Rightarrow> SearchResult" where
  "record_of d =
     \<lparr>title = field d ''title'' (PStr []),
      url = py_or (field d ''link'' PNone) (field d ''url'' (PStr [])),
      description = py_or (field d ''description'' PNone) (field d ''snippet'' (PStr []))\<rparr>"

definition valid_record :: "(string \<times> pyval) list \<Rightarrow> bool" where
  "valid_record d = (truthy (title (record_of d)) \<and> truthy (url (record_of d)))"



section \<open>Concrete ports and a concrete decoder, for running the model\<close>

text \<open>
  A scripted completion port answers its n-th call with the n-th reply of a list and
  fails with a timeout once the list is used up; the scripted search port always gives
  the same reply. \<open>demo_json\<close> lists what \<^verbatim>\<open>json.loads\<close> returns on four objects;
  the runs below give it no other well-formed JSON text.
\<close>

fun is_llm_call :: "event \<Rightarrow> bool" where
  "is_llm_call (LLMCall p t) = True"
| "is_llm_call (SearchCall k n) = False"

definition scripted_llm :: "llm_reply list \<Rightarrow> event list \<Rightarrow> string \<Rightarrow> temperature \<Rightarrow> llm_reply" where
  "scripted_llm replies hist prompt t =
     (case drop (length (filter is_llm_call hist)) replies of
        [] \<Rightarrow> LLMFails ''Request timed out'' None
      | r # _ \<Rightarrow> r)"

definition scripted_ports :: "llm_reply list \<Rightarrow> search_reply \<Rightarrow> ports" where
  "scripted_ports replies found =
     \<lparr>llm_prompt = scripted_llm replies, search_as_dict = (\<lambda>hist keywords n. found)\<rparr>"

definition demo_json :: "string \<Rightarrow> pyval option" where
  \<open>demo_json = map_of
     [(''{"needs_search": true, "reason": "recent news"}'',
         PDict [(''needs_search'', PBool True), (''reason'', PStr ''recent news'')]),
      (''{"needs_search": false}'', PDict [(''needs_search'', PBool False)]),
      (''{"keywords": "isabelle release"}'', PDict [(''keywords'', PStr ''isabelle release'')]),
      (''{}'', PDict [])]\<close>

definition demo_lib :: pylib where
  "demo_lib = \<lparr>json_loads = demo_json, str_of = (\<lambda>v. ''<object>'')\<rparr>"

definition yes_json :: string where
  \<open>yes_json = ''{"needs_search": true, "reason": "recent news"}''\<close>

definition no_json :: string where
  \<open>no_json = ''{"needs_search": false}''\<close>

definition keywords_json :: string where
  \<open>keywords_json = ''{"keywords": "isabelle release"}''\<close>

definition one_result :: "pyval list" where
  "one_result = [to_dict \<lparr>title = PStr ''Isabelle'', url = PStr ''https://isabelle.in.tum.de'',
                          description = PStr ''A proof assistant''\<rparr>]"

section \<open>Facts about the stages\<close>

lemma and_then_simps [simp]:
  "and_then (Inl e) f = Inl e" "and_then (Inr v) f = f v"
  by (simp_all add: and_then_def)

lemma on_exception_Inr:
  "on_exception result e = Inr r \<longleftrightarrow>
     (\<exists>m sc. e = LLMError m sc \<and> r = result\<lparr>answer_text := ''Sorry, I encountered an error: '' @ m\<rparr>)"
  by (cases e) auto

lemma on_exception_uncaught: "\<not> json_or_llm_error e \<Longrightarrow> on_exception result e = Inl e"
  by (cases e) simp_all

text \<open>Each of the first two stages makes one completion call and never lets a
  \<^verbatim>\<open>JSONDecodeError\<close> or an \<^verbatim>\<open>LLMError\<close> out.\<close>

lemma needs_web_search_hist:
  "snd (needs_web_search L P q hist) = hist @ [LLMCall (DECISION_PROMPT_format q) Temp_0_1]"
  by (simp add: needs_web_search_def)

lemma extract_keywords_hist:
  "snd (extract_keywords L P q hist) = hist @ [LLMCall (KEYWORD_PROMPT_format q) Temp_0_1]"
  by (simp add: extract_keywords_def)

lemma needs_web_search_absorbs:
  "fst (needs_web_search L P q hist) = Inl e \<Longrightarrow> \<not> json_or_llm_error e"
  by (auto simp: needs_web_search_def split: sum.splits if_splits)

lemma extract_keywords_absorbs:
  "fst (extract_keywords L P q hist) = Inl e \<Longrightarrow> \<not> json_or_llm_error e"
  by (auto simp: extract_keywords_def split: sum.splits if_splits)

lemma set_answer_Inr:
  "set_answer result (x, h) = (Inr r, h') \<Longrightarrow>
     h' = h \<and> (\<exists>a. r = result\<lparr>answer_text := a\<rparr>)"
  by (auto simp: set_answer_def on_exception_Inr split: sum.splits)

text \<open>Formatting the results can only fail on a result that lacks a key or is no
  dictionary; then no completion call is made.\<close>

lemma py_getitem_raises: "py_getitem v k = Inl e \<Longrightarrow> e = KeyError \<or> e = TypeError"
  by (cases v) (auto split: option.splits)

lemma format_result_raises: "format_result L i r = Inl e \<Longrightarrow> e = KeyError \<or> e = TypeError"
  unfolding format_result_def
  by (auto simp: and_then_def split: sum.splits dest: py_getitem_raises)

lemma format_results_raises:
  "format_results L i rs acc = Inl e \<Longrightarrow> e = KeyError \<or> e = TypeError"
  by (induction rs arbitrary: i acc) (auto split: sum.splits dest: format_result_raises)

lemma answer_with_results_hist:
  assumes "answer_with_results L P q rs hist = (x, h)"
  shows "(\<exists>e. x = Inl e \<and> (e = KeyError \<or> e = TypeError) \<and> h = hist) \<or>
         (\<exists>p. h = hist @ [LLMCall p Temp_0_7])"
proof (cases "format_results L 1 rs []")
  case (Inl e)
  with assms have "x = Inl e" and "h = hist"
    by (simp_all add: answer_with_results_def)
  moreover have "e = KeyError \<or> e = TypeError"
    using Inl by (rule format_results_raises)
  ultimately show ?thesis by blast
next
  case (Inr formatted)
  then show ?thesis using assms by (auto simp: answer_with_results_def)
qed

subsection \<open>The five paths through answer\<close>

lemma answer_disabled:
  "answer L P q False hist =
     set_answer \<lparr>question = q, answer_text = [], used_search = False, search_results = [],
                 reason = PStr ''Web search disabled''\<rparr> (answer_direct P q hist)"
  by (simp add: answer_def)

lemma answer_decision_raises:
  assumes "needs_web_search L P q hist = (Inl e, h1)"
  shows "answer L P q True hist = (Inl e, h1)"
proof -
  from assms have "fst (needs_web_search L P q hist) = Inl e" by simp
  then have "\<not> json_or_llm_error e" by (rule needs_web_search_absorbs)
  then show ?thesis using assms by (simp add: answer_def on_exception_uncaught)
qed

lemma answer_enabled_direct:
  assumes "needs_web_search L P q hist = (Inr (ns, rsn), h1)" and "\<not> truthy ns"
  shows "answer L P q True hist =
     set_answer \<lparr>question = q, answer_text = [], used_search = False, search_results = [],
                 reason = rsn\<rparr> (answer_direct P q h1)"
  using assms by (simp add: answer_def)

lemma answer_keywords_raise:
  assumes "needs_web_search L P q hist = (Inr (ns, rsn), h1)" and "truthy ns"
    and "extract_keywords L P q h1 = (Inl e, h2)"
  shows "answer L P q True hist = (Inl e, h2)"
proof -
  from assms(3) have "fst (extract_keywords L P q h1) = Inl e" by simp
  then have "\<not> json_or_llm_error e" by (rule extract_keywords_absorbs)
  then show ?thesis using assms by (simp add: answer_def on_exception_uncaught)
qed

lemma answer_enabled_search:
  assumes "needs_web_search L P q hist = (Inr (ns, rsn), h1)" and "truthy ns"
    and "extract_keywords L P q h1 = (Inr kw, h2)"
    and "search_web P kw 5 h2 = (rs, h3)"
  shows "answer L P q True hist =
     set_answer \<lparr>question = q, answer_text = [], used_search = True, search_results = rs,
                 reason = rsn\<rparr>
       (if rs \<noteq> [] then answer_with_results L P q rs h3 else answer_direct P q h3)"
  using assms by (simp add: answer_def)

subsection \<open>Unfolding a run on concrete ports\<close>

lemmas run_simps =
  scripted_ports_def scripted_llm_def demo_lib_def demo_json_def yes_json_def no_json_def
  keywords_json_def prompt_llm_def parse_json_response_def loads_def strip_def py_isspace_def
  strip_fence_def startswith_def py_split1_def py_rsplit1_def list_item_def
  needs_web_search_def needs_web_search_try_def extract_keywords_def extract_keywords_try_def
  search_web_def answer_direct_def set_answer_def decision_fallback_def
  answer_with_results_def format_result_def to_dict_def one_result_def dec.simps digit_def

section \<open>The claims\<close>

subsection \<open>C1: the decision stage on a reply it cannot decode\<close>

text \<open>What the handler of the decision stage does catch: a failed completion call and
  a reply that the decoder rejects.\<close>

lemma needs_web_search_fallback:
  assumes "llm_prompt P hist (DECISION_PROMPT_format q) Temp_0_1 = LLMFails m sc \<or>
           (\<exists>response. llm_prompt P hist (DECISION_PROMPT_format q) Temp_0_1 = LLMReturns response \<and>
              parse_json_response L response = Inl JSONDecodeError)"
  shows "needs_web_search L P q hist =
           (Inr (PBool False, PStr ''Failed to determine, using direct answer''),
            hist @ [LLMCall (DECISION_PROMPT_format q) Temp_0_1])"
  using assms
  by (auto simp: needs_web_search_def needs_web_search_try_def prompt_llm_def
      decision_fallback_def)

text \<open>
  C1 says that \<^verbatim>\<open>_needs_web_search\<close> lets no error out, whatever text the completion
  port returns, and falls back to \<open>(False, "Failed to determine, using direct answer")\<close>,
  a malformed fenced code block included. The code does this for a reply that
  \<^verbatim>\<open>json.loads\<close> rejects and for an \<^verbatim>\<open>LLMError\<close> (lemma
  \<open>needs_web_search_fallback\<close>). A reply that opens a fence and
  has no line break is different: \<^verbatim>\<open>response.split("\n", 1)[1]\<close> raises IndexError,
  which \<^verbatim>\<open>except (json.JSONDecodeError, LLMError)\<close> does not catch, and neither does
  \<^verbatim>\<open>answer\<close>. The run below is that reply: the stage raises, and so does \<^verbatim>\<open>answer\<close>.
\<close>

theorem needs_web_search_fence_without_newline:
  "fst (needs_web_search demo_lib
          (scripted_ports [LLMReturns ''```json''] (SearchReturns []))
          ''What is new in Isabelle?'' []) = Inl IndexError \<and>
   fst (answer demo_lib
          (scripted_ports [LLMReturns ''```json''] (SearchReturns []))
          ''What is new in Isabelle?'' True []) = Inl IndexError"
  by (simp add: answer_def run_simps)

subsection \<open>C2: a completion failure in a synthesis stage\<close>



subsection \<open>C3: used_search and search_results\<close>

text \<open>
  C3: in every result that \<^verbatim>\<open>answer\<close> returns, \<open>search_results\<close> is non-empty only if
  \<open>used_search\<close> is true; \<open>used_search\<close> is true exactly when this call of
  \<^verbatim>\<open>answer\<close> invoked the search port; and \<open>used_search\<close> is false whenever the
  caller disabled the search. The calls made by this run are the ones after the first
  \<open>length hist\<close> entries of the history.
\<close>

theorem answer_used_search_invariant:
  assumes "answer L P q use_web_search hist = (Inr r, hist')"
  shows "(search_results r \<noteq> [] \<longrightarrow> used_search r) \<and>
         (used_search r \<longleftrightarrow> (\<exists>kw n. SearchCall kw n \<in> set (drop (length hist) hist'))) \<and>
         (\<not> use_web_search \<longrightarrow> \<not> used_search r)"
proof (cases use_web_search)
  case False
  with assms show ?thesis
    by (auto simp: answer_disabled answer_direct_def dest!: set_answer_Inr)
next
  case True
  obtain d h1 where d: "needs_web_search L P q hist = (d, h1)"
    by (cases "needs_web_search L P q hist")
  then have h1: "h1 = hist @ [LLMCall (DECISION_PROMPT_format q) Temp_0_1]"
    using needs_web_search_hist [of L P q hist] by simp
  show ?thesis
  proof (cases d)
    case (Inl e)
    with d assms True show ?thesis by (simp add: answer_decision_raises)
  next
    case (Inr nr)
    obtain ns rsn where nr: "nr = (ns, rsn)" by (cases nr)
    show ?thesis
    proof (cases "truthy ns")
      case False
      with assms True d Inr nr h1 show ?thesis
        by (auto simp: answer_enabled_direct answer_direct_def dest!: set_answer_Inr)
    next
      case ns: True
      obtain k h2 where k: "extract_keywords L P q h1 = (k, h2)"
        by (cases "extract_keywords L P q h1")
      then have h2: "h2 = h1 @ [LLMCall (KEYWORD_PROMPT_format q) Temp_0_1]"
        using extract_keywords_hist [of L P q h1] by simp
      show ?thesis
      proof (cases k)
        case (Inl e)
        with assms True d Inr nr ns k show ?thesis by (simp add: answer_keywords_raise)
      next
        case kw: (Inr kw)
        obtain rs h3 where s: "search_web P kw 5 h2 = (rs, h3)"
          by (cases "search_web P kw 5 h2")
        then have h3: "h3 = h2 @ [SearchCall kw 5]" by (auto simp: search_web_def)
        obtain x h4 where x:
          "(if rs \<noteq> [] then answer_with_results L P q rs h3 else answer_direct P q h3) = (x, h4)"
          by (cases "if rs \<noteq> [] then answer_with_results L P q rs h3 else answer_direct P q h3")
        then have "\<exists>rest. h4 = h3 @ rest"
          by (auto simp: answer_direct_def split: if_splits dest: answer_with_results_hist)
        then obtain rest where h4: "h4 = h3 @ rest" ..
        from assms True d Inr nr ns k kw s x
        have "set_answer \<lparr>question = q, answer_text = [], used_search = True,
                           search_results = rs, reason = rsn\<rparr> (x, h4) = (Inr r, hist')"
          by (simp add: answer_enabled_search)
        from set_answer_Inr [OF this] have "hist' = h4" and "used_search r" by auto
        with True h1 h2 h3 h4 show ?thesis by auto
      qed
    qed
  qed
qed

text \<open>A run that searches: the decision is yes, one result comes back, and the model
  answers from it.\<close>

theorem answer_used_search_invariant_witness:
  "answer demo_lib
     (scripted_ports [LLMReturns yes_json, LLMReturns keywords_json, LLMReturns ''Isabelle2025-2'']
        (SearchReturns one_result))
     ''Which Isabelle is current?'' True [] =
     (Inr \<lparr>question = ''Which Isabelle is current?'', answer_text = ''Isabelle2025-2'',
           used_search = True, search_results = one_result, reason = PStr ''recent news''\<rparr>,
      [LLMCall (DECISION_PROMPT_format ''Which Isabelle is current?'') Temp_0_1,
       LLMCall (KEYWORD_PROMPT_format ''Which Isabelle is current?'') Temp_0_1,
       SearchCall (PStr ''isabelle release'') 5,
       LLMCall (ANSWER_WITH_SEARCH_PROMPT_format ''Which Isabelle is current?''
                  (''\<newline>1. Isabelle\<newline>'' @
                   ''   URL: https://isabelle.in.tum.de\<newline>'' @
                   ''   A proof assistant\<newline>'')) Temp_0_7]) \<and>
   (\<exists>kw n. SearchCall kw n \<in> set (drop (length ([] :: event list))
      [LLMCall (DECISION_PROMPT_format ''Which Isabelle is current?'') Temp_0_1,
       LLMCall (KEYWORD_PROMPT_format ''Which Isabelle is current?'') Temp_0_1,
       SearchCall (PStr ''isabelle release'') 5,
       LLMCall (ANSWER_WITH_SEARCH_PROMPT_format ''Which Isabelle is current?''
                  (''\<newline>1. Isabelle\<newline>'' @
                   ''   URL: https://isabelle.in.tum.de\<newline>'' @
                   ''   A proof assistant\<newline>'')) Temp_0_7]))"
proof -
  have run: "answer demo_lib
     (scripted_ports [LLMReturns yes_json, LLMReturns keywords_json, LLMReturns ''Isabelle2025-2'']
        (SearchReturns one_result))
     ''Which Isabelle is current?'' True [] =
     (Inr \<lparr>question = ''Which Isabelle is current?'', answer_text = ''Isabelle2025-2'',
           used_search = True, search_results = one_result, reason = PStr ''recent news''\<rparr>,
      [LLMCall (DECISION_PROMPT_format ''Which Isabelle is current?'') Temp_0_1,
       LLMCall (KEYWORD_PROMPT_format ''Which Isabelle is current?'') Temp_0_1,
       SearchCall (PStr ''isabelle release'') 5,
       LLMCall (ANSWER_WITH_SEARCH_PROMPT_format ''Which Isabelle is current?''
                  (''\<newline>1. Isabelle\<newline>'' @
                   ''   URL: https://isabelle.in.tum.de\<newline>'' @
                   ''   A proof assistant\<newline>'')) Temp_0_7])"
    by (simp add: answer_def run_simps)
  from answer_used_search_invariant [OF run] have
    "used_search \<lparr>question = ''Which Isabelle is current?'', answer_text = ''Isabelle2025-2'',
           used_search = True, search_results = one_result, reason = PStr ''recent news''\<rparr> \<longleftrightarrow>
     (\<exists>kw n. SearchCall kw n \<in> set (drop (length ([] :: event list))
      [LLMCall (DECISION_PROMPT_format ''Which Isabelle is current?'') Temp_0_1,
       LLMCall (KEYWORD_PROMPT_format ''Which Isabelle is current?'') Temp_0_1,
       SearchCall (PStr ''isabelle release'') 5,
       LLMCall (ANSWER_WITH_SEARCH_PROMPT_format ''Which Isabelle is current?''
                  (''\<newline>1. Isabelle\<newline>'' @
                   ''   URL: https://isabelle.in.tum.de\<newline>'' @
                   ''   A proof assistant\<newline>'')) Temp_0_7]))"
    by blast
  then have "\<exists>kw n. SearchCall kw n \<in> set (drop (length ([] :: event list))
      [LLMCall (DECISION_PROMPT_format ''Which Isabelle is current?'') Temp_0_1,
       LLMCall (KEYWORD_PROMPT_format ''Which Isabelle is current?'') Temp_0_1,
       SearchCall (PStr ''isabelle release'') 5,
       LLMCall (ANSWER_WITH_SEARCH_PROMPT_format ''Which Isabelle is current?''
                  (''\<newline>1. Isabelle\<newline>'' @
                   ''   URL: https://isabelle.in.tum.de\<newline>'' @
                   ''   A proof assistant\<newline>'')) Temp_0_7])"
    by simp
  with run show ?thesis by (rule conjI)
qed

subsection \<open>C4: search disabled by the caller\<close>



subsection \<open>C5: a search that finds nothing\<close>



subsection \<open>C6: the parser keeps the valid records\<close>

text \<open>On a dictionary, one round of the loop computes the record of the specification
  and keeps it when it is valid.\<close>

lemma parse_item_dict:
  "parse_item (PDict d) = Inr (if valid_record d then Some (record_of d) else None)"
  by (simp add: parse_item_def valid_record_def record_of_def field_def py_or_def)

lemma parse_items_dicts:
  "parse_items (map PDict ds) results =
     Inr (results @ map record_of (filter valid_record ds))"
  by (induction ds arbitrary: results) (simp_all add: parse_item_dict)

text \<open>
  C6: when the payload holds a list of organic results whose entries are records
  (dictionaries), \<^verbatim>\<open>_parse_search_results\<close> returns the records whose title and URL are
  both non-empty, in the order of the payload, and raises nothing for the others. In
  particular the organic list
  \<open>[{"title":"","link":"http://x"}, {"title":"A","link":"http://y","snippet":"d"}]\<close>
  parses to exactly \<open>[{"title":"A","url":"http://y","description":"d"}]\<close>.
\<close>

theorem parse_search_results_keeps_valid_records:
  "(find_organic L data = Inr (Some (PList (map PDict ds))) \<longrightarrow>
      parse_search_results L data = Inr (map record_of (filter valid_record ds))) \<and>
   results_as_dict L
     (PDict [(''organic'', PList
        [PDict [(''title'', PStr []), (''link'', PStr ''http://x'')],
         PDict [(''title'', PStr ''A''), (''link'', PStr ''http://y''),
                (''snippet'', PStr ''d'')]])]) =
     Inr [PDict [(''title'', PStr ''A''), (''url'', PStr ''http://y''),
                 (''description'', PStr ''d'')]]"
proof (intro conjI impI)
  assume "find_organic L data = Inr (Some (PList (map PDict ds)))"
  then show "parse_search_results L data = Inr (map record_of (filter valid_record ds))"
    by (simp add: parse_search_results_def parse_items_dicts)
next
  show "results_as_dict L
     (PDict [(''organic'', PList
        [PDict [(''title'', PStr []), (''link'', PStr ''http://x'')],
         PDict [(''title'', PStr ''A''), (''link'', PStr ''http://y''),
                (''snippet'', PStr ''d'')]])]) =
     Inr [PDict [(''title'', PStr ''A''), (''url'', PStr ''http://y''),
                 (''description'', PStr ''d'')]]"
    by (simp add: results_as_dict_def parse_search_results_def find_organic_def py_or_def
        parse_item_def to_dict_def)
qed

text \<open>A payload with a body, the alternate field names, a record without a URL and a
  record whose title is empty.\<close>

theorem parse_search_results_keeps_valid_records_witness:
  "parse_search_results demo_lib
     (PDict [(''status_code'', PInt 200),
             (''body'', PDict [(''organic_results'', PList (map PDict
                [[(''title'', PStr ''Isabelle''), (''url'', PStr ''https://isabelle.in.tum.de''),
                  (''description'', PStr ''A proof assistant'')],
                 [(''title'', PStr ''No address'')],
                 [(''title'', PStr []), (''link'', PStr ''https://example.org'')],
                 [(''title'', PStr ''AFP''), (''link'', PStr ''https://www.isa-afp.org'')]]))])]) =
     Inr [\<lparr>title = PStr ''Isabelle'', url = PStr ''https://isabelle.in.tum.de'',
           description = PStr ''A proof assistant''\<rparr>,
          \<lparr>title = PStr ''AFP'', url = PStr ''https://www.isa-afp.org'',
           description = PStr []\<rparr>]"
proof -
  let ?ds = "[[(''title'', PStr ''Isabelle''), (''url'', PStr ''https://isabelle.in.tum.de''),
                  (''description'', PStr ''A proof assistant'')],
                 [(''title'', PStr ''No address'')],
                 [(''title'', PStr []), (''link'', PStr ''https://example.org'')],
                 [(''title'', PStr ''AFP''), (''link'', PStr ''https://www.isa-afp.org'')]]"
  let ?data = "PDict [(''status_code'', PInt 200),
             (''body'', PDict [(''organic_results'', PList (map PDict ?ds))])]"
  have f: "find_organic demo_lib ?data = Inr (Some (PList (map PDict ?ds)))"
    by (simp add: find_organic_def py_or_def)
  from parse_search_results_keeps_valid_records [where L = demo_lib and data = ?data
      and ds = ?ds, THEN conjunct1, THEN mp, OF f]
  show ?thesis
    by (simp add: valid_record_def record_of_def field_def py_or_def)
qed

subsection \<open>C7: the prompt of search-augmented synthesis\<close>








subsection \<open>C8: the keyword stage on a reply it cannot decode\<close>

text \<open>What the handler of the keyword stage does catch.\<close>

lemma extract_keywords_fallback:
  assumes "llm_prompt P hist (KEYWORD_PROMPT_format q) Temp_0_1 = LLMFails m sc \<or>
           (\<exists>response. llm_prompt P hist (KEYWORD_PROMPT_format q) Temp_0_1 = LLMReturns response \<and>
              parse_json_response L response = Inl JSONDecodeError)"
  shows "extract_keywords L P q hist =
           (Inr (PStr q), hist @ [LLMCall (KEYWORD_PROMPT_format q) Temp_0_1])"
  using assms by (auto simp: extract_keywords_def extract_keywords_try_def prompt_llm_def)

text \<open>
  C8 says that when keyword extraction fails, because the completion call fails or its
  reply does not parse as JSON, the search query is the question itself and the failure
  is not propagated. The code does this for an \<^verbatim>\<open>LLMError\<close> and for a reply that
  \<^verbatim>\<open>json.loads\<close> rejects (lemma \<open>extract_keywords_fallback\<close>). A reply that opens a
  fence and has no line break is not JSON either, but for it the fence stripping raises
  IndexError before \<^verbatim>\<open>json.loads\<close> is reached; nothing catches that, no search is
  made, and \<^verbatim>\<open>answer\<close> raises. The run below is that reply after a decision to search.
\<close>

theorem extract_keywords_fence_without_newline:
  "answer demo_lib
     (scripted_ports [LLMReturns yes_json, LLMReturns ''```json''] (SearchReturns one_result))
     ''Which Isabelle is current?'' True [] =
     (Inl IndexError,
      [LLMCall (DECISION_PROMPT_format ''Which Isabelle is current?'') Temp_0_1,
       LLMCall (KEYWORD_PROMPT_format ''Which Isabelle is current?'') Temp_0_1])"
  by (simp add: answer_def run_simps)

subsection \<open>C9: the reason field\<close>

text \<open>
  C9 says that \<open>reason\<close> is a non-empty string in every returned result (unless the
  pipeline fails before a decision). The decision stage reads the field with
  \<^verbatim>\<open>data.get("reason", "")\<close>, so a decision object without a \<open>reason\<close> gives the
  empty string. In the run below the model decides with \<open>{"needs_search": false}\<close>,
  the answer is produced, and \<open>reason\<close> is empty.
\<close>

theorem answer_reason_empty_counterexample:
  "answer demo_lib (scripted_ports [LLMReturns no_json, LLMReturns ''Paris''] (SearchReturns []))
     ''What is the capital of France?'' True [] =
     (Inr \<lparr>question = ''What is the capital of France?'', answer_text = ''Paris'',
           used_search = False, search_results = [], reason = PStr []\<rparr>,
      [LLMCall (DECISION_PROMPT_format ''What is the capital of France?'') Temp_0_1,
       LLMCall (ANSWER_DIRECT_PROMPT_format ''What is the capital of France?'') Temp_0_7])"
  by (simp add: answer_def run_simps)

text \<open>Where the reason of a decision comes from.\<close>

lemma needs_web_search_reason:
  assumes "needs_web_search L P q hist = (Inr (ns, rsn), hst_a)"
  shows "rsn = PStr ''Failed to determine, using direct answer'' \<or>
         (\<exists>response d.
            llm_prompt P hist (DECISION_PROMPT_format q) Temp_0_1 = LLMReturns response \<and>
            parse_json_response L response = Inr (PDict d) \<and>
            rsn = (case map_of d ''reason'' of None \<Rightarrow> PStr [] | Some v \<Rightarrow> v))"
proof (cases "needs_web_search_try L P q hist")
  case (Inl e)
  with assms show ?thesis
    by (auto simp: needs_web_search_def decision_fallback_def split: if_splits)
next
  case (Inr d)
  with assms have d: "d = (ns, rsn)" by (simp add: needs_web_search_def)
  from Inr obtain response data where
    r: "prompt_llm P hist (DECISION_PROMPT_format q) Temp_0_1 = Inr response" and
    p: "parse_json_response L response = Inr data" and
    g: "py_get data ''reason'' (PStr []) = Inr rsn"
    unfolding needs_web_search_try_def d
    by (auto simp: and_then_def split: sum.splits)
  from r have "llm_prompt P hist (DECISION_PROMPT_format q) Temp_0_1 = LLMReturns response"
    by (auto simp: prompt_llm_def split: llm_reply.splits)
  moreover from g obtain dd where "data = PDict dd"
    and "rsn = (case map_of dd ''reason'' of None \<Rightarrow> PStr [] | Some v \<Rightarrow> v)"
    by (cases data) auto
  ultimately show ?thesis using p by blast
qed

text \<open>
  C9 as amended: in every returned result, \<open>reason\<close> is \<open>"Web search disabled"\<close> when
  the caller disabled the search; otherwise it is the fallback text
  \<open>"Failed to determine, using direct answer"\<close>, or the value of the \<open>reason\<close> field of
  the object that the decision reply decodes to, which is the empty string when the
  object has no such field.
\<close>

theorem answer_reason:
  assumes "answer L P q use_web_search hist = (Inr r, hist')"
  shows "(\<not> use_web_search \<longrightarrow> reason r = PStr ''Web search disabled'') \<and>
         (use_web_search \<longrightarrow>
            reason r = PStr ''Failed to determine, using direct answer'' \<or>
            (\<exists>response d.
               llm_prompt P hist (DECISION_PROMPT_format q) Temp_0_1 = LLMReturns response \<and>
               parse_json_response L response = Inr (PDict d) \<and>
               reason r = (case map_of d ''reason'' of None \<Rightarrow> PStr [] | Some v \<Rightarrow> v)))"
proof (cases use_web_search)
  case False
  with assms show ?thesis
    by (auto simp: answer_disabled answer_direct_def dest!: set_answer_Inr)
next
  case True
  obtain d hst_a where d: "needs_web_search L P q hist = (d, hst_a)"
    by (cases "needs_web_search L P q hist")
  show ?thesis
  proof (cases d)
    case (Inl e)
    with d assms True show ?thesis by (simp add: answer_decision_raises)
  next
    case (Inr nr)
    obtain ns rsn where nr: "nr = (ns, rsn)" by (cases nr)
    have dec: "needs_web_search L P q hist = (Inr (ns, rsn), hst_a)"
      using d Inr nr by simp
    have "reason r = rsn"
    proof (cases "truthy ns")
      case False
      with assms True dec show ?thesis
        by (auto simp: answer_enabled_direct answer_direct_def dest!: set_answer_Inr)
    next
      case ns: True
      obtain k hst_b where k: "extract_keywords L P q hst_a = (k, hst_b)"
        by (cases "extract_keywords L P q hst_a")
      show ?thesis
      proof (cases k)
        case (Inl e)
        with assms True dec ns k show ?thesis by (simp add: answer_keywords_raise)
      next
        case kw: (Inr kw)
        obtain rs hst_c where s: "search_web P kw 5 hst_b = (rs, hst_c)"
          by (cases "search_web P kw 5 hst_b")
        obtain x hst_d where x:
          "(if rs \<noteq> [] then answer_with_results L P q rs hst_c else answer_direct P q hst_c)
             = (x, hst_d)"
          by (cases "if rs \<noteq> [] then answer_with_results L P q rs hst_c
                     else answer_direct P q hst_c")
        from assms True dec ns k kw s x
        have "set_answer \<lparr>question = q, answer_text = [], used_search = True,
                           search_results = rs, reason = rsn\<rparr> (x, hst_d) = (Inr r, hist')"
          by (simp add: answer_enabled_search)
        from set_answer_Inr [OF this] show ?thesis by auto
      qed
    qed
    with needs_web_search_reason [OF dec] True show ?thesis by simp
  qed
qed

text \<open>The run of the counterexample again: the reply decodes to an object without a
  \<open>reason\<close>, and the field of the result is the default.\<close>

theorem answer_reason_witness:
  "answer demo_lib (scripted_ports [LLMReturns no_json, LLMReturns ''Paris''] (SearchReturns []))
     ''What is the capital of France?'' True [] =
     (Inr \<lparr>question = ''What is the capital of France?'', answer_text = ''Paris'',
           used_search = False, search_results = [], reason = PStr []\<rparr>,
      [LLMCall (DECISION_PROMPT_format ''What is the capital of France?'') Temp_0_1,
       LLMCall (ANSWER_DIRECT_PROMPT_format ''What is the capital of France?'') Temp_0_7]) \<and>
   (PStr [] = PStr ''Failed to determine, using direct answer'' \<or>
    (\<exists>response d.
       llm_prompt (scripted_ports [LLMReturns no_json, LLMReturns ''Paris''] (SearchReturns []))
         [] (DECISION_PROMPT_format ''What is the capital of France?'') Temp_0_1 =
         LLMReturns response \<and>
       parse_json_response demo_lib response = Inr (PDict d) \<and>
       PStr [] = (case map_of d ''reason'' of None \<Rightarrow> PStr [] | Some v \<Rightarrow> v)))"
proof -
  have run: "answer demo_lib
     (scripted_ports [LLMReturns no_json, LLMReturns ''Paris''] (SearchReturns []))
     ''What is the capital of France?'' True [] =
     (Inr \<lparr>question = ''What is the capital of France?'', answer_text = ''Paris'',
           used_search = False, search_results = [], reason = PStr []\<rparr>,
      [LLMCall (DECISION_PROMPT_format ''What is the capital of France?'') Temp_0_1,
       LLMCall (ANSWER_DIRECT_PROMPT_format ''What is the capital of France?'') Temp_0_7])"
    by (simp add: answer_def run_simps)
  from answer_reason [OF run] run show ?thesis by simp
qed

subsection \<open>C10: a keyword reply without the keywords field\<close>

text \<open>After a decision to search and a keyword stage that returns, the search port
  is called with the keywords.\<close>

lemma answer_search_call:
  assumes "needs_web_search L P q hist = (Inr (ns, rsn), hst_a)" and "truthy ns"
    and "extract_keywords L P q hst_a = (Inr kw, hst_b)"
  shows "SearchCall kw 5 \<in> set (snd (answer L P q True hist))"
proof -
  let ?h = "hst_b @ [SearchCall kw 5]"
  let ?rs = "fst (search_web P kw 5 hst_b)"
  have s: "search_web P kw 5 hst_b = (?rs, ?h)" by (simp add: search_web_def)
  obtain x hst_d where x:
    "(if ?rs \<noteq> [] then answer_with_results L P q ?rs ?h else answer_direct P q ?h) = (x, hst_d)"
    by (cases "if ?rs \<noteq> [] then answer_with_results L P q ?rs ?h else answer_direct P q ?h")
  then have "\<exists>rest. hst_d = ?h @ rest"
    by (auto simp: answer_direct_def split: if_splits dest: answer_with_results_hist)
  then obtain rest where "hst_d = ?h @ rest" ..
  moreover have "snd (answer L P q True hist) = hst_d"
    using answer_enabled_search [OF assms s] x by (simp add: set_answer_def split: sum.splits)
  ultimately show ?thesis by simp
qed

text \<open>
  C10: when the reply of the keyword stage decodes to a JSON object that has no
  \<open>keywords\<close> field, \<^verbatim>\<open>_extract_keywords\<close> returns the question itself, as it does on
  a reply that does not decode; and if this happens after a decision to search, the
  search port is called with the question as its query.
\<close>

theorem extract_keywords_missing_field:
  assumes "llm_prompt P hist (KEYWORD_PROMPT_format q) Temp_0_1 = LLMReturns response"
    and "parse_json_response L response = Inr (PDict d)"
    and "map_of d ''keywords'' = None"
  shows "extract_keywords L P q hist =
           (Inr (PStr q), hist @ [LLMCall (KEYWORD_PROMPT_format q) Temp_0_1]) \<and>
         (\<forall>hist0 ns rsn.
            needs_web_search L P q hist0 = (Inr (ns, rsn), hist) \<and> truthy ns \<longrightarrow>
            SearchCall (PStr q) 5 \<in> set (snd (answer L P q True hist0)))"
proof -
  from assms have k: "extract_keywords L P q hist =
           (Inr (PStr q), hist @ [LLMCall (KEYWORD_PROMPT_format q) Temp_0_1])"
    by (simp add: extract_keywords_def extract_keywords_try_def prompt_llm_def)
  then show ?thesis by (auto intro: answer_search_call)
qed

text \<open>A run in which the keyword reply is the empty object: the search port is asked
  for the question.\<close>

theorem extract_keywords_missing_field_witness:
  "extract_keywords demo_lib
     (scripted_ports [LLMReturns yes_json, LLMReturns ''{}'', LLMReturns ''Isabelle2025-2'']
        (SearchReturns one_result))
     ''Which Isabelle is current?''
     [LLMCall (DECISION_PROMPT_format ''Which Isabelle is current?'') Temp_0_1] =
     (Inr (PStr ''Which Isabelle is current?''),
      [LLMCall (DECISION_PROMPT_format ''Which Isabelle is current?'') Temp_0_1,
       LLMCall (KEYWORD_PROMPT_format ''Which Isabelle is current?'') Temp_0_1]) \<and>
   SearchCall (PStr ''Which Isabelle is current?'') 5 \<in>
     set (snd (answer demo_lib
       (scripted_ports [LLMReturns yes_json, LLMReturns ''{}'', LLMReturns ''Isabelle2025-2'']
          (SearchReturns one_result))
       ''Which Isabelle is current?'' True []))"
proof -
  let ?P = "scripted_ports [LLMReturns yes_json, LLMReturns ''{}'', LLMReturns ''Isabelle2025-2'']
              (SearchReturns one_result)"
  let ?q = "''Which Isabelle is current?''"
  let ?h1 = "[LLMCall (DECISION_PROMPT_format ?q) Temp_0_1]"
  have a: "llm_prompt ?P ?h1 (KEYWORD_PROMPT_format ?q) Temp_0_1 = LLMReturns ''{}''"
    by (simp add: scripted_ports_def scripted_llm_def)
  have b: "parse_json_response demo_lib ''{}'' = Inr (PDict [])"
    by (simp add: run_simps)
  have c: "map_of ([] :: (string \<times> pyval) list) ''keywords'' = None" by simp
  have d: "needs_web_search demo_lib ?P ?q [] = (Inr (PBool True, PStr ''recent news''), ?h1)"
    by (simp add: run_simps)
  from extract_keywords_missing_field [OF a b c] d show ?thesis by simp
qed

end
